theory Spec2Isabelle
  imports Main
begin

section \<open>The three-phase task of isolated-vm (src/isolate/three_phase_task.cc)\<close>

text \<open>
  A three-phase task is work that starts in one isolate (the caller), runs its second
  phase inside another isolate (the target) and finishes back in the caller.  The file
  embedded here holds the queue items of the asynchronous mode (\<open>Phase2Runner\<close> and
  the three items it posts back), the fire-and-ignore item \<open>Phase2RunnerIgnored\<close>
  and the synchronous entry point \<open>RunSync\<close>.

  Effects are explicit: every function takes the \<open>world\<close> (the running thread's isolate
  and locks, the trace of effects so far, the items posted to queues) and returns it
  updated.  A C++ exception is a value: a phase \<open>Returns\<close> or \<open>Throws\<close>, and
  \<open>RunSync\<close> returns \<open>exn + Value\<close>.

  The async-hooks bookkeeping of \<open>CalleeInfo\<close> and \<open>CallbackScope\<close> settles nothing
  and is left out.
\<close>

subsection \<open>Values\<close>

type_synonym isolate_id = nat
type_synonym resolver_id = nat

text \<open>A captured stack trace (\<open>Local<StackTrace>\<close>), named by what it renders to.\<close>

type_synonym StackTrace = string

text \<open>
  A script object as far as this file looks at it: an error's message and the chain of
  stack traces it shows, the throw site first.
\<close>

record Object =
  message :: string
  stack :: "StackTrace list"

datatype Value = Primitive string | Obj Object

text \<open>
  \<open>Exception::Error(v8_string(msg))\<close>, called from a queue item: no script frame is
  running there, so the new error's chain starts empty.
\<close>

definition Exception_Error :: "string \<Rightarrow> Object" where
  "Exception_Error msg = \<lparr>message = msg, stack = []\<rparr>"

text \<open>
  Modelled from the spec: \<open>ExternalCopy\<close> (external_copy.h is not part of the source
  at hand).  The spec's CopyableValue: \<open>externalize(thrown) -> CopyableValue | none\<close> and
  \<open>materialize() -> value\<close>.  A copy is named by the value it materializes to; which
  thrown values externalize, and to what, is the parameter \<open>ext\<close> of the functions below.
\<close>

datatype ExternalCopy = ExternalCopy Value

fun CopyInto :: "ExternalCopy \<Rightarrow> Value" where
  "CopyInto (ExternalCopy v) = v"

type_synonym externalize = "Value \<Rightarrow> ExternalCopy option"

subsection \<open>Tasks, callee info and queue items\<close>

datatype 'a outcome = Returns 'a | Throws Value

text \<open>
  \<open>ThreePhaseTask\<close> is abstract: \<open>Phase2\<close> and \<open>Phase3\<close> are virtual.  A task is
  given by what each phase does when called: \<open>Phase2\<close> returns nothing or throws,
  \<open>Phase3\<close> returns the caller-visible value or throws.
\<close>

record ThreePhaseTask =
  Phase2 :: "unit outcome"
  Phase3 :: "Value outcome"

text \<open>
  \<open>CalleeInfo::remotes\<close> holds the promise resolver, the caller's context and the stack
  trace captured at the invocation; \<open>remotes.GetIsolateHolder()\<close> is the caller's isolate,
  here \<open>isolate_holder\<close>.
\<close>

record CalleeInfo =
  resolver :: resolver_id
  isolate_holder :: isolate_id
  stack_trace :: StackTrace

text \<open>
  The \<open>Runnable\<close>s of the file, each with its fields.  \<open>Phase2Runner\<close> carries
  \<open>did_run\<close>; \<open>Phase3Failure\<close> carries the externalized error, which may be null.
\<close>

datatype Runnable =
    Phase2Runner ThreePhaseTask CalleeInfo bool
  | Phase3Orphan ThreePhaseTask CalleeInfo
  | Phase3Failure ThreePhaseTask CalleeInfo "ExternalCopy option"
  | Phase3Success ThreePhaseTask CalleeInfo
  | Phase2RunnerIgnored ThreePhaseTask

subsection \<open>The world\<close>

datatype event =
    Lock isolate_id
  | Unlock isolate_id
  | CallPhase2
  | CallPhase3
  | Epilogue isolate_id
  | Attach StackTrace
  | Chain StackTrace
  | Resolve resolver_id Value
  | Reject resolver_id Value
  | Microtasks isolate_id
  | ThrowException isolate_id Value

text \<open>One call of \<open>IsolateHolder::ScheduleTask(task, flag1, flag2)\<close>.\<close>

record QueueEntry =
  holder :: isolate_id
  task :: Runnable
  urgent :: bool
  run_even_if_disposed :: bool

text \<open>
  \<open>current\<close> is \<open>Isolate::GetCurrent()\<close>, \<open>locked\<close> the isolates for which
  \<open>Locker::IsLocked\<close> holds on this thread, \<open>default_thread\<close> is
  \<open>ExecutorLock::IsDefaultThread()\<close>.
\<close>

record world =
  current :: isolate_id
  locked :: "isolate_id set"
  default_thread :: bool
  trace :: "event list"
  scheduled :: "QueueEntry list"

definition emit :: "event \<Rightarrow> world \<Rightarrow> world" where
  "emit e w = w\<lparr>trace := trace w @ [e]\<rparr>"

definition call_Phase2 :: "ThreePhaseTask \<Rightarrow> world \<Rightarrow> unit outcome \<times> world" where
  "call_Phase2 self w = (Phase2 self, emit CallPhase2 w)"

definition call_Phase3 :: "ThreePhaseTask \<Rightarrow> world \<Rightarrow> Value outcome \<times> world" where
  "call_Phase3 self w = (Phase3 self, emit CallPhase3 w)"

definition PromiseResolve :: "resolver_id \<Rightarrow> Value \<Rightarrow> world \<Rightarrow> world" where
  "PromiseResolve r v w = emit (Resolve r v) w"

definition PromiseReject :: "resolver_id \<Rightarrow> Value \<Rightarrow> world \<Rightarrow> world" where
  "PromiseReject r v w = emit (Reject r v) w"

definition RunMicrotasks :: "world \<Rightarrow> world" where
  "RunMicrotasks w = emit (Microtasks (current w)) w"

definition IsLocked :: "isolate_id \<Rightarrow> world \<Rightarrow> bool" where
  "IsLocked isolate w = (isolate \<in> locked w)"

subsection \<open>Collaborators outside the file\<close>

text \<open>
  Modelled from the spec: \<open>StackTraceHolder::AttachStack\<close> and
  \<open>StackTraceHolder::ChainStack\<close> (their file is not part of the source at hand).  The
  spec's StackCapture: \<open>attach(errorValue, handle)\<close> sets, \<open>chain(errorValue, handle)\<close>
  appends to an existing chain.  Both take an object, as the C++ functions take a
  \<open>Local<Object>\<close>; the call is recorded in the trace.
\<close>

definition AttachStack :: "Object \<Rightarrow> StackTrace \<Rightarrow> world \<Rightarrow> Object \<times> world" where
  "AttachStack error st w = (error\<lparr>stack := [st]\<rparr>, emit (Attach st) w)"

definition ChainStack :: "Object \<Rightarrow> StackTrace \<Rightarrow> world \<Rightarrow> Object \<times> world" where
  "ChainStack error st w = (error\<lparr>stack := stack error @ [st]\<rparr>, emit (Chain st) w)"

text \<open>
  Modelled from the spec: \<open>IsolateEnvironment::TaskEpilogue\<close>, the context's epilogue
  hook (not part of the source at hand): a hook that runs and returns.
\<close>

definition TaskEpilogue :: "isolate_id \<Rightarrow> world \<Rightarrow> world" where
  "TaskEpilogue isolate w = emit (Epilogue isolate) w"

text \<open>
  Modelled from the spec: \<open>IsolateHolder::ScheduleTask\<close> (not part of the source at
  hand).  The spec's \<open>post(contextHandle, item, {urgent, runEvenIfDisposed})\<close>: the item
  joins the holder's queue; posting never runs it.
\<close>

definition ScheduleTask :: "isolate_id \<Rightarrow> Runnable \<Rightarrow> bool \<Rightarrow> bool \<Rightarrow> world \<Rightarrow> world" where
  "ScheduleTask h r u d w =
     w\<lparr>scheduled := scheduled w @
        [\<lparr>holder = h, task = r, urgent = u, run_even_if_disposed = d\<rparr>]\<rparr>"

text \<open>
  Modelled from the spec: \<open>FunctorRunners::RunCatchValue\<close> and
  \<open>FunctorRunners::RunCatchExternal\<close> (not part of the source at hand), the
  failure-catching scopes.  The first hands the thrown value to its handler; the second
  externalizes it first and hands over the copy, or null when externalizing yields none
  (the null that \<open>Phase3Failure::Run\<close> tests for).
\<close>

definition RunCatchValue ::
  "('s \<Rightarrow> unit outcome \<times> 's) \<Rightarrow> (Value \<Rightarrow> 's \<Rightarrow> 's) \<Rightarrow> 's \<Rightarrow> 's" where
  "RunCatchValue fn1 fn2 s =
     (case fn1 s of
        (Returns u, s1) \<Rightarrow> s1
      | (Throws e, s1) \<Rightarrow> fn2 e s1)"

definition RunCatchExternal ::
  "externalize \<Rightarrow> ('s \<Rightarrow> unit outcome \<times> 's) \<Rightarrow> (ExternalCopy option \<Rightarrow> 's \<Rightarrow> 's) \<Rightarrow> 's \<Rightarrow> 's" where
  "RunCatchExternal ext fn1 fn2 s =
     (case fn1 s of
        (Returns u, s1) \<Rightarrow> s1
      | (Throws e, s1) \<Rightarrow> fn2 (ext e) s1)"

text \<open>
  Modelled from the spec: \<open>IsolateEnvironment::ExecutorLock\<close> (not part of the source
  at hand), the scoped exclusive lock of section 4.1.  Constructing it takes the
  isolate's lock and enters the isolate; leaving the scope puts the thread's isolate and
  locks back as they were in the world the scope was entered from (\<open>entered\<close>).
\<close>

definition ExecutorLock_ctor :: "isolate_id \<Rightarrow> world \<Rightarrow> world" where
  "ExecutorLock_ctor isolate w =
     emit (Lock isolate) (w\<lparr>current := isolate, locked := insert isolate (locked w)\<rparr>)"

definition ExecutorLock_dtor :: "isolate_id \<Rightarrow> world \<Rightarrow> world \<Rightarrow> world" where
  "ExecutorLock_dtor isolate entered w =
     emit (Unlock isolate) (w\<lparr>current := current entered, locked := locked entered\<rparr>)"

subsection \<open>Phase2Runner and the items it posts back\<close>

text \<open>
  \<open>Phase3Orphan::Run\<close>, the item posted by the destructor of a \<open>Phase2Runner\<close> that
  never ran.
\<close>

definition Phase3Orphan_Run :: "ThreePhaseTask \<Rightarrow> CalleeInfo \<Rightarrow> world \<Rightarrow> world" where
  "Phase3Orphan_Run self info w =
     (let error = Exception_Error ''Isolate is disposed'';
          (error, w1) = AttachStack error (stack_trace info) w;
          w2 = PromiseReject (resolver info) (Obj error) w1
      in RunMicrotasks w2)"

text \<open>\<open>Phase3Failure::Run\<close>, the item posted when \<open>Phase2\<close> threw.\<close>

definition Phase3Failure_Run ::
  "ThreePhaseTask \<Rightarrow> CalleeInfo \<Rightarrow> ExternalCopy option \<Rightarrow> world \<Rightarrow> world" where
  "Phase3Failure_Run self info error w =
     (let rejection =
            (case error of
               Some e \<Rightarrow> CopyInto e
             | None \<Rightarrow> Obj (Exception_Error ''An exception was thrown. Sorry I don't know more.''));
          (rejection, w1) =
            (case rejection of
               Obj ob \<Rightarrow> (let (ob, w1) = ChainStack ob (stack_trace info) w in (Obj ob, w1))
             | Primitive p \<Rightarrow> (rejection, w));
          w2 = PromiseReject (resolver info) rejection w1
      in RunMicrotasks w2)"

text \<open>\<open>Phase3Success::Run\<close>, the item posted when \<open>Phase2\<close> returned.\<close>

definition Phase3Success_Run :: "ThreePhaseTask \<Rightarrow> CalleeInfo \<Rightarrow> world \<Rightarrow> world" where
  "Phase3Success_Run self info w =
     (let w1 = RunCatchValue
            (\<lambda>w. case call_Phase3 self w of
                    (Returns v, w1) \<Rightarrow> (Returns (), PromiseResolve (resolver info) v w1)
                  | (Throws e, w1) \<Rightarrow> (Throws e, w1))
            (\<lambda>error w.
               let (error, w1) =
                     (case error of
                        Obj ob \<Rightarrow> (let (ob, w1) = AttachStack ob (stack_trace info) w in (Obj ob, w1))
                      | Primitive p \<Rightarrow> (error, w))
               in PromiseReject (resolver info) error w1)
            w
      in RunMicrotasks w1)"

text \<open>
  \<open>Phase2Runner::Run\<close>.  The result's first component is \<open>did_run\<close> after the call;
  \<open>self\<close> and \<open>info\<close> move into the item that is posted.
\<close>

definition Phase2Runner_Run ::
  "externalize \<Rightarrow> ThreePhaseTask \<Rightarrow> CalleeInfo \<Rightarrow> world \<Rightarrow> bool \<times> world" where
  "Phase2Runner_Run ext self info w =
     (let did_run = True
      in (did_run,
          RunCatchExternal ext
            (\<lambda>w. case call_Phase2 self w of
                    (Returns u, w1) \<Rightarrow>
                      (let w2 = TaskEpilogue (current w1) w1;
                           holder = isolate_holder info
                       in (Returns (), ScheduleTask holder (Phase3Success self info) False True w2))
                  | (Throws e, w1) \<Rightarrow> (Throws e, w1))
            (\<lambda>error w.
               let holder = isolate_holder info
               in ScheduleTask holder (Phase3Failure self info error) False True w)
            w))"

text \<open>\<open>Phase2Runner::~Phase2Runner\<close>.\<close>

definition Phase2Runner_dtor :: "ThreePhaseTask \<Rightarrow> CalleeInfo \<Rightarrow> bool \<Rightarrow> world \<Rightarrow> world" where
  "Phase2Runner_dtor self info did_run w =
     (if \<not> did_run then
        (let holder = isolate_holder info
         in ScheduleTask holder (Phase3Orphan self info) False True w)
      else w)"

subsection \<open>Phase2RunnerIgnored\<close>

text \<open>
  \<open>Phase2RunnerIgnored::Run\<close>: the \<open>catch\<close> block is empty, so the function returns
  whatever \<open>Phase2\<close> did.
\<close>

definition Phase2RunnerIgnored_Run :: "ThreePhaseTask \<Rightarrow> world \<Rightarrow> unit outcome \<times> world" where
  "Phase2RunnerIgnored_Run self w =
     (case (case call_Phase2 self w of
              (Returns u, w1) \<Rightarrow> (Returns (), TaskEpilogue (current w1) w1)
            | (Throws e, w1) \<Rightarrow> (Throws e, w1)) of
        (Returns u, w2) \<Rightarrow> (Returns (), w2)
      | (Throws cc_error, w2) \<Rightarrow> (Returns (), w2))"

subsection \<open>RunSync\<close>

text \<open>
  What \<open>RunSync\<close> throws: a \<open>js_generic_error\<close> with its message, or a
  \<open>js_runtime_error\<close>, which stands for the exception pending in the isolate (the
  value it is shown with).
\<close>

datatype exn = js_generic_error string | js_runtime_error Value

text \<open>The last line of \<open>RunSync\<close>, \<open>return Phase3()\<close>.\<close>

definition final_phase :: "ThreePhaseTask \<Rightarrow> world \<Rightarrow> (exn + Value) \<times> world" where
  "final_phase self w =
     (case call_Phase3 self w of
        (Returns v, w1) \<Rightarrow> (Inr v, w1)
      | (Throws e, w1) \<Rightarrow> (Inl (js_runtime_error e), w1))"

text \<open>
  \<open>ThreePhaseTask::RunSync\<close>.  \<open>second_isolate\<close> is what
  \<open>second_isolate.GetIsolate()\<close> gives: \<open>None\<close> for null.  \<open>here\<close> is what
  \<open>StackTrace::CurrentStackTrace(isolate, 10)\<close> captures at the caller.
\<close>

definition RunSync ::
  "externalize \<Rightarrow> StackTrace \<Rightarrow> ThreePhaseTask \<Rightarrow> isolate_id option \<Rightarrow> world
     \<Rightarrow> (exn + Value) \<times> world" where
  "RunSync ext here self second_isolate w =
     (case second_isolate of
        None \<Rightarrow> (Inl (js_generic_error ''Isolated is disposed''), w)
      | Some second_isolate_ref \<Rightarrow>
          if second_isolate_ref = current w then
            (case call_Phase2 self w of
               (Returns u, w1) \<Rightarrow> final_phase self w1
             | (Throws e, w1) \<Rightarrow> (Inl (js_runtime_error e), w1))
          else if \<not> default_thread w then
            (Inl (js_generic_error
               ''Calling a synchronous isolated-vm function from within an asynchronous isolated-vm function is not allowed.''),
             w)
          else
            (let is_recursive = IsLocked second_isolate_ref w;
                 w1 = ExecutorLock_ctor second_isolate_ref w;
                 (error, w2) = RunCatchExternal ext
                   (\<lambda>(error, w). case call_Phase2 self w of
                      (Returns u, w1) \<Rightarrow>
                        (Returns (),
                         (error, if \<not> is_recursive then TaskEpilogue second_isolate_ref w1 else w1))
                    | (Throws e, w1) \<Rightarrow> (Throws e, (error, w1)))
                   (\<lambda>error_inner (error, w). (error_inner, w))
                   (None, w1);
                 w3 = ExecutorLock_dtor second_isolate_ref w w2
             in (case error of
                   Some e \<Rightarrow>
                     (let error_copy = CopyInto e;
                          (error_copy, w4) =
                            (case error_copy of
                               Obj ob \<Rightarrow> (let (ob, w4) = ChainStack ob here w3 in (Obj ob, w4))
                             | Primitive p \<Rightarrow> (error_copy, w3));
                          w5 = emit (ThrowException (current w4) error_copy) w4
                      in (Inl (js_runtime_error error_copy), w5))
                 | None \<Rightarrow> final_phase self w3)))"

subsection \<open>The queue\<close>

text \<open>The virtual \<open>Runnable::Run\<close> and the virtual destructor, by the item's class.\<close>

fun Run :: "externalize \<Rightarrow> Runnable \<Rightarrow> world \<Rightarrow> Runnable \<times> world" where
  "Run ext (Phase2Runner self info did_run) w =
     (let (did_run, w1) = Phase2Runner_Run ext self info w
      in (Phase2Runner self info did_run, w1))"
| "Run ext (Phase3Orphan self info) w = (Phase3Orphan self info, Phase3Orphan_Run self info w)"
| "Run ext (Phase3Failure self info error) w =
     (Phase3Failure self info error, Phase3Failure_Run self info error w)"
| "Run ext (Phase3Success self info) w = (Phase3Success self info, Phase3Success_Run self info w)"
| "Run ext (Phase2RunnerIgnored self) w =
     (Phase2RunnerIgnored self, snd (Phase2RunnerIgnored_Run self w))"

fun destroy :: "Runnable \<Rightarrow> world \<Rightarrow> world" where
  "destroy (Phase2Runner self info did_run) w = Phase2Runner_dtor self info did_run w"
| "destroy (Phase3Orphan self info) w = w"
| "destroy (Phase3Failure self info error) w = w"
| "destroy (Phase3Success self info) w = w"
| "destroy (Phase2RunnerIgnored self) w = w"

text \<open>
  Modelled from the spec: the task queue that takes a posted item (the scheduler is not
  part of the source at hand).  Section 6: if \<open>runEvenIfDisposed\<close> is false and the
  context is gone, the item is dropped without running; otherwise it runs, inside the
  isolate it was posted to.  Either way the item is destroyed afterwards.  \<open>disposed\<close>
  says which isolates are gone.
\<close>

definition deliver :: "externalize \<Rightarrow> (isolate_id \<Rightarrow> bool) \<Rightarrow> QueueEntry \<Rightarrow> world \<Rightarrow> world" where
  "deliver ext disposed e w =
     (if run_even_if_disposed e then
        (let (r, w1) = Run ext (task e) (w\<lparr>current := holder e\<rparr>) in destroy r w1)
      else if disposed (holder e) then destroy (task e) w
      else
        (let (r, w1) = Run ext (task e) (w\<lparr>current := holder e\<rparr>) in destroy r w1))"

text \<open>
  Modelled from the spec: an asynchronous invocation after \<open>Phase1\<close> (the code that
  builds the \<open>Phase2Runner\<close> and posts it is in the header, not part of the source at
  hand).  Section 4.2: task and callee info are handed, as one queued item, to the target;
  then every item posted meanwhile is taken by its queue in turn.  The flags of the first
  post are the parameters \<open>u\<close> and \<open>d\<close>.
\<close>

definition async_invocation ::
  "externalize \<Rightarrow> (isolate_id \<Rightarrow> bool) \<Rightarrow> isolate_id \<Rightarrow> bool \<Rightarrow> bool \<Rightarrow>
     ThreePhaseTask \<Rightarrow> CalleeInfo \<Rightarrow> world \<Rightarrow> world" where
  "async_invocation ext disposed target u d self info w =
     (let w1 = deliver ext disposed
                 \<lparr>holder = target, task = Phase2Runner self info False,
                  urgent = u, run_even_if_disposed = d\<rparr> w
      in fold (deliver ext disposed) (scheduled w1) (w1\<lparr>scheduled := []\<rparr>))"

text \<open>Settling a future: resolving or rejecting its resolver.\<close>

fun settles :: "resolver_id \<Rightarrow> event \<Rightarrow> bool" where
  "settles r (Resolve r' v) = (r' = r)"
| "settles r (Reject r' v) = (r' = r)"
| "settles r (Lock i) = False"
| "settles r (Unlock i) = False"
| "settles r CallPhase2 = False"
| "settles r CallPhase3 = False"
| "settles r (Epilogue i) = False"
| "settles r (Attach st) = False"
| "settles r (Chain st) = False"
| "settles r (Microtasks i) = False"
| "settles r (ThrowException i v) = False"

definition settlements :: "resolver_id \<Rightarrow> event list \<Rightarrow> nat" where
  "settlements r tr = length (filter (settles r) tr)"

text \<open>The events a run added to the trace.\<close>

definition since :: "world \<Rightarrow> world \<Rightarrow> event list" where
  "since w w' = drop (length (trace w)) (trace w')"

text \<open>
  The item \<open>Phase2Runner::Run\<close> posts back: \<open>Phase3Success\<close> from the first functor
  when \<open>Phase2\<close> returned, \<open>Phase3Failure\<close> with the externalized error from the
  second when it threw.
\<close>

definition follow_up :: "externalize \<Rightarrow> ThreePhaseTask \<Rightarrow> CalleeInfo \<Rightarrow> Runnable" where
  "follow_up ext self info =
     (case Phase2 self of
        Returns u \<Rightarrow> Phase3Success self info
      | Throws e \<Rightarrow> Phase3Failure self info (ext e))"

subsection \<open>Concrete inputs\<close>

text \<open>
  A thread of the default isolate 0 and a worker thread inside isolate 2, each holding its
  own isolate's lock; a callee info of isolate 0; and a few tasks and externalizers.
\<close>

definition default_world :: world where
  "default_world =
     \<lparr>current = 0, locked = {0}, default_thread = True, trace = [], scheduled = []\<rparr>"

definition worker_world :: world where
  "worker_world =
     \<lparr>current = 2, locked = {2}, default_thread = False, trace = [], scheduled = []\<rparr>"

definition info7 :: CalleeInfo where
  "info7 = \<lparr>resolver = 7, isolate_holder = 0, stack_trace = ''at invocation''\<rparr>"

definition task42 :: ThreePhaseTask where
  "task42 = \<lparr>Phase2 = Returns (), Phase3 = Returns (Primitive ''42'')\<rparr>"

definition boom :: Object where
  "boom = \<lparr>message = ''boom'', stack = [''at throw'']\<rparr>"

definition task_boom2 :: ThreePhaseTask where
  "task_boom2 = \<lparr>Phase2 = Throws (Obj boom), Phase3 = Returns (Primitive ''42'')\<rparr>"

definition task_boom3 :: ThreePhaseTask where
  "task_boom3 = \<lparr>Phase2 = Returns (), Phase3 = Throws (Obj boom)\<rparr>"

definition task_prim2 :: ThreePhaseTask where
  "task_prim2 = \<lparr>Phase2 = Throws (Primitive ''oops''), Phase3 = Returns (Primitive ''42'')\<rparr>"

definition task_prim3 :: ThreePhaseTask where
  "task_prim3 = \<lparr>Phase2 = Returns (), Phase3 = Throws (Primitive ''oops'')\<rparr>"

definition copy_all :: externalize where
  "copy_all v = Some (ExternalCopy v)"

definition copy_none :: externalize where
  "copy_none v = None"

section \<open>What each function does\<close>

text \<open>
  The embedding functions are unfolded with these equations; the lemmas after them give
  the world each item leaves behind, case by case.
\<close>

lemmas model_defs =
  emit_def call_Phase2_def call_Phase3_def PromiseResolve_def PromiseReject_def
  RunMicrotasks_def IsLocked_def AttachStack_def ChainStack_def TaskEpilogue_def
  ScheduleTask_def RunCatchValue_def RunCatchExternal_def ExecutorLock_ctor_def
  ExecutorLock_dtor_def Exception_Error_def Let_def

lemma RunSync_success:
  assumes "t \<noteq> current w" "default_thread w" "Phase2 self = Returns u"
  shows "RunSync ext here self (Some t) w =
     final_phase self (w\<lparr>trace := trace w @ [Lock t, CallPhase2] @
        (if IsLocked t w then [] else [Epilogue t]) @ [Unlock t]\<rparr>)"
  using assms by (simp add: RunSync_def model_defs)

lemma RunSync_failure_lost:
  assumes "t \<noteq> current w" "default_thread w" "Phase2 self = Throws e" "ext e = None"
  shows "RunSync ext here self (Some t) w =
     final_phase self (w\<lparr>trace := trace w @ [Lock t, CallPhase2, Unlock t]\<rparr>)"
  using assms by (simp add: RunSync_def model_defs)

lemma RunSync_failure_object:
  assumes "t \<noteq> current w" "default_thread w" "Phase2 self = Throws e"
    "ext e = Some (ExternalCopy (Obj ob))"
  shows "RunSync ext here self (Some t) w =
     (Inl (js_runtime_error (Obj (ob\<lparr>stack := stack ob @ [here]\<rparr>))),
      w\<lparr>trace := trace w @ [Lock t, CallPhase2, Unlock t, Chain here,
         ThrowException (current w) (Obj (ob\<lparr>stack := stack ob @ [here]\<rparr>))]\<rparr>)"
  using assms by (simp add: RunSync_def model_defs)

lemma RunSync_failure_primitive:
  assumes "t \<noteq> current w" "default_thread w" "Phase2 self = Throws e"
    "ext e = Some (ExternalCopy (Primitive p))"
  shows "RunSync ext here self (Some t) w =
     (Inl (js_runtime_error (Primitive p)),
      w\<lparr>trace := trace w @ [Lock t, CallPhase2, Unlock t,
         ThrowException (current w) (Primitive p)]\<rparr>)"
  using assms by (simp add: RunSync_def model_defs)

lemma Phase3Failure_Run_object:
  "Phase3Failure_Run self info (Some (ExternalCopy (Obj ob))) w =
     w\<lparr>trace := trace w @ [Chain (stack_trace info),
        Reject (resolver info) (Obj (ob\<lparr>stack := stack ob @ [stack_trace info]\<rparr>)),
        Microtasks (current w)]\<rparr>"
  by (simp add: Phase3Failure_Run_def model_defs)

lemma Phase3Failure_Run_primitive:
  "Phase3Failure_Run self info (Some (ExternalCopy (Primitive p))) w =
     w\<lparr>trace := trace w @ [Reject (resolver info) (Primitive p), Microtasks (current w)]\<rparr>"
  by (simp add: Phase3Failure_Run_def model_defs)

lemma Phase3Failure_Run_null:
  "Phase3Failure_Run self info None w =
     w\<lparr>trace := trace w @ [Chain (stack_trace info),
        Reject (resolver info)
          (Obj \<lparr>message = ''An exception was thrown. Sorry I don't know more.'',
                stack = [stack_trace info]\<rparr>),
        Microtasks (current w)]\<rparr>"
  by (simp add: Phase3Failure_Run_def model_defs)

lemma Phase3Orphan_Run_eq:
  "Phase3Orphan_Run self info w =
     w\<lparr>trace := trace w @ [Attach (stack_trace info),
        Reject (resolver info)
          (Obj \<lparr>message = ''Isolate is disposed'', stack = [stack_trace info]\<rparr>),
        Microtasks (current w)]\<rparr>"
  by (simp add: Phase3Orphan_Run_def model_defs)

lemma Phase3Success_Run_resolves:
  "Phase3 self = Returns v \<Longrightarrow> Phase3Success_Run self info w =
     w\<lparr>trace := trace w @ [CallPhase3, Resolve (resolver info) v, Microtasks (current w)]\<rparr>"
  by (simp add: Phase3Success_Run_def model_defs)

lemma Phase3Success_Run_object:
  "Phase3 self = Throws (Obj ob) \<Longrightarrow> Phase3Success_Run self info w =
     w\<lparr>trace := trace w @ [CallPhase3, Attach (stack_trace info),
        Reject (resolver info) (Obj (ob\<lparr>stack := [stack_trace info]\<rparr>)),
        Microtasks (current w)]\<rparr>"
  by (simp add: Phase3Success_Run_def model_defs)

lemma Phase3Success_Run_primitive:
  "Phase3 self = Throws (Primitive p) \<Longrightarrow> Phase3Success_Run self info w =
     w\<lparr>trace := trace w @ [CallPhase3, Reject (resolver info) (Primitive p),
        Microtasks (current w)]\<rparr>"
  by (simp add: Phase3Success_Run_def model_defs)

lemma Phase2Runner_Run_success:
  "Phase2 self = Returns u \<Longrightarrow> Phase2Runner_Run ext self info w =
     (True, w\<lparr>trace := trace w @ [CallPhase2, Epilogue (current w)],
              scheduled := scheduled w @
                [\<lparr>holder = isolate_holder info, task = Phase3Success self info,
                  urgent = False, run_even_if_disposed = True\<rparr>]\<rparr>)"
  by (simp add: Phase2Runner_Run_def model_defs)

lemma Phase2Runner_Run_failure:
  "Phase2 self = Throws e \<Longrightarrow> Phase2Runner_Run ext self info w =
     (True, w\<lparr>trace := trace w @ [CallPhase2],
              scheduled := scheduled w @
                [\<lparr>holder = isolate_holder info, task = Phase3Failure self info (ext e),
                  urgent = False, run_even_if_disposed = True\<rparr>]\<rparr>)"
  by (simp add: Phase2Runner_Run_def model_defs)

lemmas example_defs =
  default_world_def worker_world_def info7_def task42_def boom_def task_boom2_def
  task_boom3_def task_prim2_def task_prim3_def copy_all_def copy_none_def

subsection \<open>Counting settlements\<close>

lemma settlements_append [simp]:
  "settlements r (xs @ ys) = settlements r xs + settlements r ys"
  by (simp add: settlements_def)

lemma settlements_simps [simp]:
  "settlements r [] = 0"
  "settlements r (e # es) = (if settles r e then 1 else 0) + settlements r es"
  by (simp_all add: settlements_def)

lemma Phase3Failure_Run_settles:
  "settlements (resolver info) (trace (Phase3Failure_Run self info error w)) =
     settlements (resolver info) (trace w) + 1"
proof (cases error)
  case None
  then show ?thesis by (simp add: Phase3Failure_Run_null)
next
  case (Some c)
  then obtain v where c: "c = ExternalCopy v" by (cases c) simp
  show ?thesis
    by (cases v) (simp_all add: Some c Phase3Failure_Run_object Phase3Failure_Run_primitive)
qed

lemma Phase3Success_Run_settles:
  "settlements (resolver info) (trace (Phase3Success_Run self info w)) =
     settlements (resolver info) (trace w) + 1"
proof (cases "Phase3 self")
  case (Returns v)
  then show ?thesis by (simp add: Phase3Success_Run_resolves)
next
  case (Throws e)
  then show ?thesis
    by (cases e) (simp_all add: Phase3Success_Run_object Phase3Success_Run_primitive)
qed

lemma Phase3Orphan_Run_settles:
  "settlements (resolver info) (trace (Phase3Orphan_Run self info w)) =
     settlements (resolver info) (trace w) + 1"
  by (simp add: Phase3Orphan_Run_eq)

lemma deliver_follow_up_settles:
  "settlements (resolver info) (trace (deliver ext disposed
      \<lparr>holder = h, task = follow_up ext self info, urgent = False,
       run_even_if_disposed = True\<rparr> w)) =
   settlements (resolver info) (trace w) + 1"
  by (cases "Phase2 self")
     (simp_all add: deliver_def follow_up_def Phase3Success_Run_settles
        Phase3Failure_Run_settles)

lemma deliver_orphan_settles:
  "settlements (resolver info) (trace (deliver ext disposed
      \<lparr>holder = h, task = Phase3Orphan self info, urgent = False,
       run_even_if_disposed = True\<rparr> w)) =
   settlements (resolver info) (trace w) + 1"
  by (simp add: deliver_def Phase3Orphan_Run_settles)

text \<open>
  What the queue makes of a posted \<open>Phase2Runner\<close>: run and then destroyed it leaves
  the follow-up item, destroyed without running it leaves the orphan item.
\<close>

lemma deliver_Phase2Runner:
  "deliver ext disposed
     \<lparr>holder = target, task = Phase2Runner self info False,
      urgent = u, run_even_if_disposed = d\<rparr> w =
   (if d then
      w\<lparr>current := target,
        trace := trace w @ CallPhase2 #
           (case Phase2 self of Returns u \<Rightarrow> [Epilogue target] | Throws e \<Rightarrow> []),
        scheduled := scheduled w @
          [\<lparr>holder = isolate_holder info, task = follow_up ext self info,
            urgent = False, run_even_if_disposed = True\<rparr>]\<rparr>
    else if disposed target then
      w\<lparr>scheduled := scheduled w @
          [\<lparr>holder = isolate_holder info, task = Phase3Orphan self info,
            urgent = False, run_even_if_disposed = True\<rparr>]\<rparr>
    else
      w\<lparr>current := target,
        trace := trace w @ CallPhase2 #
           (case Phase2 self of Returns u \<Rightarrow> [Epilogue target] | Throws e \<Rightarrow> []),
        scheduled := scheduled w @
          [\<lparr>holder = isolate_holder info, task = follow_up ext self info,
            urgent = False, run_even_if_disposed = True\<rparr>]\<rparr>)"
  by (cases "Phase2 self")
     (simp_all add: deliver_def Phase2Runner_Run_success Phase2Runner_Run_failure
        Phase2Runner_dtor_def ScheduleTask_def follow_up_def)

subsection \<open>The events of a synchronous call\<close>

lemma since_append [simp]: "since w (w\<lparr>trace := trace w @ es\<rparr>) = es"
  by (simp add: since_def)

lemma final_phase_trace:
  "trace (snd (final_phase self w)) = trace w @ [CallPhase3]"
  by (cases "Phase3 self") (simp_all add: final_phase_def call_Phase3_def emit_def)

lemma since_final_phase [simp]:
  "since w (snd (final_phase self (w\<lparr>trace := trace w @ es\<rparr>))) = es @ [CallPhase3]"
  by (simp add: since_def final_phase_trace)

section \<open>The claims\<close>

subsection \<open>C1: the future is settled exactly once\<close>

text \<open>
  C1.  For every asynchronous invocation the caller-bound future is settled exactly once,
  by resolve, by reject or by the orphan rejection: whatever the task does, whatever
  externalizes, whichever isolates are disposed and whatever the flags of the first post,
  the invocation adds exactly one settlement of the callee info's resolver to the trace
  (the caller's inbox holding nothing else).  The run flag makes follow-up and orphan
  exclude each other: \<open>Run\<close> sets \<open>did_run\<close>, the destructor of an item that ran posts
  nothing, and the queued item leaves exactly one posted item behind, the orphan item when
  it was dropped and the success or failure item when it ran.
\<close>

theorem future_settled_exactly_once:
  assumes "scheduled w = []"
  shows "settlements (resolver info)
           (trace (async_invocation ext disposed target u d self info w)) =
         settlements (resolver info) (trace w) + 1
       \<and> fst (Phase2Runner_Run ext self info w) = True
       \<and> Phase2Runner_dtor self info True w = w
       \<and> scheduled (deliver ext disposed
            \<lparr>holder = target, task = Phase2Runner self info False,
             urgent = u, run_even_if_disposed = d\<rparr> w) =
          [\<lparr>holder = isolate_holder info,
            task = (if d then follow_up ext self info
                    else if disposed target then Phase3Orphan self info
                    else follow_up ext self info),
            urgent = False, run_even_if_disposed = True\<rparr>]"
proof -
  have flag: "fst (Phase2Runner_Run ext self info w) = True"
    by (simp add: Phase2Runner_Run_def)
  have dtor: "Phase2Runner_dtor self info True w = w"
    by (simp add: Phase2Runner_dtor_def)
  have posted: "scheduled (deliver ext disposed
            \<lparr>holder = target, task = Phase2Runner self info False,
             urgent = u, run_even_if_disposed = d\<rparr> w) =
          [\<lparr>holder = isolate_holder info,
            task = (if d then follow_up ext self info
                    else if disposed target then Phase3Orphan self info
                    else follow_up ext self info),
            urgent = False, run_even_if_disposed = True\<rparr>]"
    using assms by (simp add: deliver_Phase2Runner)
  have once: "settlements (resolver info)
           (trace (async_invocation ext disposed target u d self info w)) =
         settlements (resolver info) (trace w) + 1"
    unfolding async_invocation_def Let_def posted
    by (simp add: deliver_follow_up_settles deliver_orphan_settles deliver_Phase2Runner
          split: outcome.split)
  from once flag dtor posted show ?thesis by blast
qed

text \<open>
  At two concrete inputs, the default thread of isolate 0 calling into isolate 1 for
  future 7.  With isolate 1 disposed before the item runs, the item is dropped and the
  orphan item rejects; with isolate 1 alive, both phases run and the future resolves with
  42.  Either way the future is settled once.
\<close>

theorem future_settled_exactly_once_witness:
  "scheduled default_world = []
   \<and> settlements 7 (trace (async_invocation copy_all (\<lambda>i. i = 1) 1 False False
         task42 info7 default_world)) = 1
   \<and> trace (async_invocation copy_all (\<lambda>i. i = 1) 1 False False
         task42 info7 default_world) =
       [Attach ''at invocation'',
        Reject 7 (Obj \<lparr>message = ''Isolate is disposed'', stack = [''at invocation'']\<rparr>),
        Microtasks 0]
   \<and> settlements 7 (trace (async_invocation copy_all (\<lambda>i. False) 1 False False
         task42 info7 default_world)) = 1
   \<and> trace (async_invocation copy_all (\<lambda>i. False) 1 False False
         task42 info7 default_world) =
       [CallPhase2, Epilogue 1, CallPhase3, Resolve 7 (Primitive ''42''), Microtasks 0]"
proof -
  have h: "scheduled default_world = []"
    by (simp add: default_world_def)
  have t: "settlements 7 (trace default_world) = 0" "resolver info7 = 7"
    by (simp_all add: default_world_def info7_def)
  have dropped: "trace (async_invocation copy_all (\<lambda>i. i = 1) 1 False False
         task42 info7 default_world) =
       [Attach ''at invocation'',
        Reject 7 (Obj \<lparr>message = ''Isolate is disposed'', stack = [''at invocation'']\<rparr>),
        Microtasks 0]"
    by (simp add: async_invocation_def deliver_def Phase2Runner_dtor_def
          Phase3Orphan_Run_def model_defs example_defs)
  have ran: "trace (async_invocation copy_all (\<lambda>i. False) 1 False False
         task42 info7 default_world) =
       [CallPhase2, Epilogue 1, CallPhase3, Resolve 7 (Primitive ''42''), Microtasks 0]"
    by (simp add: async_invocation_def deliver_def Phase2Runner_Run_def
          Phase2Runner_dtor_def Phase3Success_Run_def model_defs example_defs)
  note once = future_settled_exactly_once
    [OF h, where info = info7 and ext = copy_all and target = 1 and u = False
       and d = False and self = task42]
  from once [where disposed = "\<lambda>i. i = 1"] t
  have "settlements 7 (trace (async_invocation copy_all (\<lambda>i. i = 1) 1 False False
         task42 info7 default_world)) = 1"
    by simp
  moreover from once [where disposed = "\<lambda>i. False"] t
  have "settlements 7 (trace (async_invocation copy_all (\<lambda>i. False) 1 False False
         task42 info7 default_world)) = 1"
    by simp
  ultimately show ?thesis
    using h dropped ran by blast
qed

subsection \<open>C2: the orphan path\<close>

text \<open>
  C2.  When the queued item is destroyed without ever having run (\<open>did_run\<close> is false),
  its destructor posts one item onto the caller's isolate, a \<open>Phase3Orphan\<close> with the
  same task and the same callee info.  When the caller's queue runs that item, it attaches
  the stack captured at the invocation to a new error with the message
  \<open>Isolate is disposed\<close>, rejects the future with it, and then runs the microtasks of
  the caller's isolate; nothing else happens.
\<close>

theorem orphan_fallback_rejects_with_disposed_error:
  "Phase2Runner_dtor self info False w =
     w\<lparr>scheduled := scheduled w @
        [\<lparr>holder = isolate_holder info, task = Phase3Orphan self info,
          urgent = False, run_even_if_disposed = True\<rparr>]\<rparr>
   \<and> deliver ext disposed
        \<lparr>holder = isolate_holder info, task = Phase3Orphan self info,
         urgent = False, run_even_if_disposed = True\<rparr> w =
      w\<lparr>current := isolate_holder info,
        trace := trace w @
          [Attach (stack_trace info),
           Reject (resolver info)
             (Obj \<lparr>message = ''Isolate is disposed'', stack = [stack_trace info]\<rparr>),
           Microtasks (isolate_holder info)]\<rparr>"
proof
  show "Phase2Runner_dtor self info False w =
     w\<lparr>scheduled := scheduled w @
        [\<lparr>holder = isolate_holder info, task = Phase3Orphan self info,
          urgent = False, run_even_if_disposed = True\<rparr>]\<rparr>"
    by (simp add: Phase2Runner_dtor_def ScheduleTask_def)
next
  have "deliver ext disposed
        \<lparr>holder = isolate_holder info, task = Phase3Orphan self info,
         urgent = False, run_even_if_disposed = True\<rparr> w =
      Phase3Orphan_Run self info (w\<lparr>current := isolate_holder info\<rparr>)"
    by (simp add: deliver_def)
  then show "deliver ext disposed
        \<lparr>holder = isolate_holder info, task = Phase3Orphan self info,
         urgent = False, run_even_if_disposed = True\<rparr> w =
      w\<lparr>current := isolate_holder info,
        trace := trace w @
          [Attach (stack_trace info),
           Reject (resolver info)
             (Obj \<lparr>message = ''Isolate is disposed'', stack = [stack_trace info]\<rparr>),
           Microtasks (isolate_holder info)]\<rparr>"
    by (simp add: Phase3Orphan_Run_eq)
qed

subsection \<open>C3: synchronous mode under the target's lock\<close>

text \<open>
  C3.  The claim reads: when \<open>Phase2\<close> runs under the target's lock and fails, the error
  is thrown in the caller after the lock is released and \<open>Phase3\<close> is never invoked.
  \<open>RunSync\<close> does so when the failure handler was handed a copy (lemmas
  \<open>RunSync_failure_object\<close> and \<open>RunSync_failure_primitive\<close>), and it calls \<open>Phase3\<close>
  and returns its result when \<open>Phase2\<close> returned (lemma \<open>RunSync_success\<close>).  When
  the handler is handed null, the case \<open>Phase3Failure::Run\<close> answers with a placeholder
  error, \<open>if (error)\<close> is false in \<open>RunSync\<close>: nothing is thrown, \<open>Phase3\<close> is called
  after the failed \<open>Phase2\<close>, and its value is returned as if the call had succeeded.
\<close>

theorem sync_unexternalized_failure_reaches_phase3:
  assumes "t \<noteq> current w" "default_thread w"
    and "Phase2 self = Throws e" "ext e = None" "Phase3 self = Returns v"
  shows "RunSync ext here self (Some t) w =
           (Inr v, w\<lparr>trace := trace w @ [Lock t, CallPhase2, Unlock t, CallPhase3]\<rparr>)"
  using assms by (simp add: RunSync_failure_lost final_phase_def call_Phase3_def emit_def)

text \<open>
  At a concrete input: the default thread calls into isolate 1, \<open>Phase2\<close> throws
  \<open>boom\<close>, nothing externalizes, and the caller is handed 42.
\<close>

theorem sync_unexternalized_failure_reaches_phase3_witness:
  "1 \<noteq> current default_world \<and> default_thread default_world
   \<and> Phase2 task_boom2 = Throws (Obj boom) \<and> copy_none (Obj boom) = None
   \<and> Phase3 task_boom2 = Returns (Primitive ''42'')
   \<and> fst (RunSync copy_none ''at call'' task_boom2 (Some 1) default_world) =
       Inr (Primitive ''42'')
   \<and> trace (snd (RunSync copy_none ''at call'' task_boom2 (Some 1) default_world)) =
       [Lock 1, CallPhase2, Unlock 1, CallPhase3]"
proof -
  have h: "1 \<noteq> current default_world" "default_thread default_world"
    "Phase2 task_boom2 = Throws (Obj boom)" "copy_none (Obj boom) = None"
    "Phase3 task_boom2 = Returns (Primitive ''42'')"
    by (simp_all add: example_defs)
  show ?thesis
    using h
      sync_unexternalized_failure_reaches_phase3
        [where ext = copy_none and e = "Obj boom", OF h, where here = "''at call''"]
    by (simp add: default_world_def)
qed

subsection \<open>C4: a failing Phase2 in asynchronous mode\<close>

text \<open>
  C4.  When \<open>Phase2\<close> throws in asynchronous mode, \<open>Phase2Runner::Run\<close> posts one item
  onto the caller's isolate, a \<open>Phase3Failure\<close> carrying the externalized error (null
  when externalizing gave none), and neither the epilogue nor a success item.  When that
  item runs it rejects the future: with the materialized error, the invocation's stack
  chained onto it when it is an object; and with the placeholder error
  \<open>An exception was thrown. Sorry I don't know more.\<close> when the carried error is null.
  In each case the only settlement is that one rejection.
\<close>

theorem async_phase2_failure_rejects_future:
  assumes "Phase2 self = Throws e"
  shows "Phase2Runner_Run ext self info w =
       (True, w\<lparr>trace := trace w @ [CallPhase2],
                scheduled := scheduled w @
                  [\<lparr>holder = isolate_holder info, task = Phase3Failure self info (ext e),
                    urgent = False, run_even_if_disposed = True\<rparr>]\<rparr>)
     \<and> trace (Phase3Failure_Run self info (Some (ExternalCopy (Obj ob))) w) =
         trace w @ [Chain (stack_trace info),
           Reject (resolver info) (Obj (ob\<lparr>stack := stack ob @ [stack_trace info]\<rparr>)),
           Microtasks (current w)]
     \<and> trace (Phase3Failure_Run self info (Some (ExternalCopy (Primitive p))) w) =
         trace w @ [Reject (resolver info) (Primitive p), Microtasks (current w)]
     \<and> trace (Phase3Failure_Run self info None w) =
         trace w @ [Chain (stack_trace info),
           Reject (resolver info)
             (Obj \<lparr>message = ''An exception was thrown. Sorry I don't know more.'',
                   stack = [stack_trace info]\<rparr>),
           Microtasks (current w)]"
  using assms
  by (simp add: Phase2Runner_Run_failure Phase3Failure_Run_object
        Phase3Failure_Run_primitive Phase3Failure_Run_null)

text \<open>
  At a concrete input: \<open>Phase2\<close> throws the error \<open>boom\<close> and nothing externalizes; the
  failure item carries null and rejects future 7 with the placeholder.  Had \<open>boom\<close> been
  copied, the rejection would be \<open>boom\<close> with both stacks.
\<close>

theorem async_phase2_failure_rejects_future_witness:
  "Phase2 task_boom2 = Throws (Obj boom)
   \<and> scheduled (snd (Phase2Runner_Run copy_none task_boom2 info7 worker_world)) =
       [\<lparr>holder = 0, task = Phase3Failure task_boom2 info7 None,
         urgent = False, run_even_if_disposed = True\<rparr>]
   \<and> trace (Phase3Failure_Run task_boom2 info7 None default_world) =
       [Chain ''at invocation'',
        Reject 7 (Obj \<lparr>message = ''An exception was thrown. Sorry I don't know more.'',
                       stack = [''at invocation'']\<rparr>),
        Microtasks 0]
   \<and> trace (Phase3Failure_Run task_boom2 info7 (Some (ExternalCopy (Obj boom))) default_world) =
       [Chain ''at invocation'',
        Reject 7 (Obj \<lparr>message = ''boom'', stack = [''at throw'', ''at invocation'']\<rparr>),
        Microtasks 0]"
proof -
  have h: "Phase2 task_boom2 = Throws (Obj boom)"
    by (simp add: task_boom2_def)
  show ?thesis
    using h
      async_phase2_failure_rejects_future
        [OF h, where ext = copy_none and info = info7 and w = worker_world]
      async_phase2_failure_rejects_future
        [OF h, where info = info7 and w = default_world and ob = boom]
    by (simp add: example_defs)
qed

subsection \<open>C5: deadlock prevention\<close>

text \<open>
  C5.  A synchronous invocation on a live target that is not the isolate the calling
  thread is running in (the test the code makes for a caller that already owns the
  target), from a thread that is not the default thread, fails with the deadlock
  prevention error.  The world is returned as it was: no lock was taken, no phase called,
  nothing added to the trace.
\<close>

theorem sync_deadlock_error_before_any_lock:
  assumes "t \<noteq> current w" "\<not> default_thread w"
  shows "RunSync ext here self (Some t) w =
       (Inl (js_generic_error
          ''Calling a synchronous isolated-vm function from within an asynchronous isolated-vm function is not allowed.''),
        w)
     \<and> since w (snd (RunSync ext here self (Some t) w)) = []"
  using assms by (simp add: RunSync_def since_def)

text \<open>At a concrete input: a worker thread inside isolate 2 calls into isolate 1.\<close>

theorem sync_deadlock_error_before_any_lock_witness:
  "1 \<noteq> current worker_world \<and> \<not> default_thread worker_world
   \<and> fst (RunSync copy_all ''at call'' task42 (Some 1) worker_world) =
       Inl (js_generic_error
          ''Calling a synchronous isolated-vm function from within an asynchronous isolated-vm function is not allowed.'')
   \<and> trace (snd (RunSync copy_all ''at call'' task42 (Some 1) worker_world)) = []"
proof -
  have h: "1 \<noteq> current worker_world" "\<not> default_thread worker_world"
    by (simp_all add: worker_world_def)
  show ?thesis
    using h
      sync_deadlock_error_before_any_lock
        [OF h, where ext = copy_all and here = "''at call''" and self = task42]
    by (simp add: worker_world_def since_def)
qed

subsection \<open>C6: the message of the disposed error\<close>

text \<open>
  C6.  The claim reads: the disposed error carries one fixed message in both places.
  \<open>RunSync\<close> on a target that is gone throws a generic error with the message
  \<open>Isolated is disposed\<close>; the orphan item rejects with an error whose message is
  \<open>Isolate is disposed\<close>.  The two strings differ.
\<close>

theorem disposed_messages_differ:
  "RunSync ext here self None w = (Inl (js_generic_error ''Isolated is disposed''), w)
   \<and> trace (Phase3Orphan_Run self' info w) =
       trace w @ [Attach (stack_trace info),
         Reject (resolver info)
           (Obj \<lparr>message = ''Isolate is disposed'', stack = [stack_trace info]\<rparr>),
         Microtasks (current w)]
   \<and> ''Isolated is disposed'' \<noteq> ''Isolate is disposed''"
proof -
  have sync: "RunSync ext here self None w =
      (Inl (js_generic_error ''Isolated is disposed''), w)"
    by (simp add: RunSync_def)
  have orphan: "trace (Phase3Orphan_Run self' info w) =
       trace w @ [Attach (stack_trace info),
         Reject (resolver info)
           (Obj \<lparr>message = ''Isolate is disposed'', stack = [stack_trace info]\<rparr>),
         Microtasks (current w)]"
    by (simp add: Phase3Orphan_Run_eq)
  have "''Isolated is disposed'' \<noteq> ''Isolate is disposed''"
    by simp
  with sync orphan show ?thesis by blast
qed

subsection \<open>C7: which stack a failure carries\<close>

text \<open>
  C7.  The claim reads: on every failure path the invocation's stack is appended to the
  chain already on the error, never replacing it.  It fails where \<open>Phase3\<close> throws in
  asynchronous mode: \<open>Phase3Success::Run\<close> calls \<open>AttachStack\<close>, which sets the
  chain.  An error thrown by \<open>Phase3\<close> with the chain \<open>[at throw]\<close> is
  delivered with the chain \<open>[at invocation]\<close>, not with both.
\<close>

theorem phase3_throw_loses_throw_site:
  "stack boom = [''at throw'']
   \<and> Phase3 task_boom3 = Throws (Obj boom)
   \<and> trace (Phase3Success_Run task_boom3 info7 default_world) =
       [CallPhase3, Attach ''at invocation'',
        Reject 7 (Obj \<lparr>message = ''boom'', stack = [''at invocation'']\<rparr>),
        Microtasks 0]
   \<and> Reject 7 (Obj \<lparr>message = ''boom'', stack = [''at throw'', ''at invocation'']\<rparr>)
       \<notin> set (trace (Phase3Success_Run task_boom3 info7 default_world))"
  by (simp add: Phase3Success_Run_def model_defs example_defs)

text \<open>
  C7, amended.  When the delivered error is an object: where \<open>Phase2\<close> failed, the
  stack is chained, appended to what the error already shows (the stack captured at the
  invocation in asynchronous mode, a stack captured after the lock's release in
  synchronous mode); on the orphan path and where \<open>Phase3\<close> threw in asynchronous mode,
  the stack captured at the invocation is attached, and becomes the whole chain.
\<close>

theorem invocation_stack_chained_or_attached:
  assumes "Phase3 failing3 = Throws (Obj ob)"
    and "t \<noteq> current w" "default_thread w"
    and "Phase2 failing2 = Throws e" "ext e = Some (ExternalCopy (Obj ob))"
  shows "trace (Phase3Failure_Run self info (Some (ExternalCopy (Obj ob))) w) =
           trace w @ [Chain (stack_trace info),
             Reject (resolver info) (Obj (ob\<lparr>stack := stack ob @ [stack_trace info]\<rparr>)),
             Microtasks (current w)]
       \<and> RunSync ext here failing2 (Some t) w =
           (Inl (js_runtime_error (Obj (ob\<lparr>stack := stack ob @ [here]\<rparr>))),
            w\<lparr>trace := trace w @ [Lock t, CallPhase2, Unlock t, Chain here,
               ThrowException (current w) (Obj (ob\<lparr>stack := stack ob @ [here]\<rparr>))]\<rparr>)
       \<and> trace (Phase3Orphan_Run self info w) =
           trace w @ [Attach (stack_trace info),
             Reject (resolver info)
               (Obj \<lparr>message = ''Isolate is disposed'', stack = [stack_trace info]\<rparr>),
             Microtasks (current w)]
       \<and> trace (Phase3Success_Run failing3 info w) =
           trace w @ [CallPhase3, Attach (stack_trace info),
             Reject (resolver info) (Obj (ob\<lparr>stack := [stack_trace info]\<rparr>)),
             Microtasks (current w)]"
  using assms
  by (simp add: Phase3Failure_Run_object RunSync_failure_object Phase3Orphan_Run_eq
        Phase3Success_Run_object)

text \<open>At a concrete input, the error \<open>boom\<close> thrown at \<open>at throw\<close>.\<close>

theorem invocation_stack_chained_or_attached_witness:
  "Phase3 task_boom3 = Throws (Obj boom)
   \<and> 1 \<noteq> current default_world \<and> default_thread default_world
   \<and> Phase2 task_boom2 = Throws (Obj boom)
   \<and> copy_all (Obj boom) = Some (ExternalCopy (Obj boom))
   \<and> trace (Phase3Failure_Run task_boom2 info7 (Some (ExternalCopy (Obj boom))) default_world) =
       [Chain ''at invocation'',
        Reject 7 (Obj \<lparr>message = ''boom'', stack = [''at throw'', ''at invocation'']\<rparr>),
        Microtasks 0]
   \<and> fst (RunSync copy_all ''at call'' task_boom2 (Some 1) default_world) =
       Inl (js_runtime_error (Obj \<lparr>message = ''boom'', stack = [''at throw'', ''at call'']\<rparr>))
   \<and> trace (Phase3Success_Run task_boom3 info7 default_world) =
       [CallPhase3, Attach ''at invocation'',
        Reject 7 (Obj \<lparr>message = ''boom'', stack = [''at invocation'']\<rparr>),
        Microtasks 0]"
proof -
  have h: "Phase3 task_boom3 = Throws (Obj boom)"
    "1 \<noteq> current default_world" "default_thread default_world"
    "Phase2 task_boom2 = Throws (Obj boom)"
    "copy_all (Obj boom) = Some (ExternalCopy (Obj boom))"
    by (simp_all add: example_defs)
  show ?thesis
    using h
      invocation_stack_chained_or_attached
        [where ext = copy_all and e = "Obj boom", OF h,
         where self = task_boom2 and info = info7 and here = "''at call''"]
    by (simp add: default_world_def info7_def boom_def)
qed

subsection \<open>C8: the epilogue under the lock\<close>

text \<open>
  C8.  In synchronous mode on the locking path (a live target other than the current
  isolate, called from the default thread), \<open>is_recursive\<close> is read from the world as
  it is before the \<open>ExecutorLock\<close> is constructed; read after, it would always be
  true.  The lock is taken first and \<open>Phase2\<close> called next; the target's epilogue is
  among the events of the call if and only if \<open>Phase2\<close> returned and the lock was not
  already held, and then it comes right after \<open>Phase2\<close>; otherwise the lock's release
  comes right after \<open>Phase2\<close>.
\<close>

theorem sync_epilogue_iff_success_and_not_reentrant:
  assumes "t \<noteq> current w" "default_thread w"
  shows "(Epilogue t \<in> set (since w (snd (RunSync ext here self (Some t) w)))) =
           (Phase2 self = Returns () \<and> \<not> IsLocked t w)
       \<and> take 3 (since w (snd (RunSync ext here self (Some t) w))) =
           [Lock t, CallPhase2,
            if Phase2 self = Returns () \<and> \<not> IsLocked t w then Epilogue t else Unlock t]
       \<and> IsLocked t (ExecutorLock_ctor t w)"
proof -
  have after: "IsLocked t (ExecutorLock_ctor t w)"
    by (simp add: IsLocked_def ExecutorLock_ctor_def emit_def)
  have "(Epilogue t \<in> set (since w (snd (RunSync ext here self (Some t) w)))) =
           (Phase2 self = Returns () \<and> \<not> IsLocked t w)
       \<and> take 3 (since w (snd (RunSync ext here self (Some t) w))) =
           [Lock t, CallPhase2,
            if Phase2 self = Returns () \<and> \<not> IsLocked t w then Epilogue t else Unlock t]"
  proof (cases "Phase2 self")
    case (Returns u)
    then show ?thesis
      using assms by (simp add: RunSync_success)
  next
    case (Throws e)
    show ?thesis
    proof (cases "ext e")
      case None
      then show ?thesis
        using assms Throws by (simp add: RunSync_failure_lost)
    next
      case (Some c)
      then obtain v where c: "ext e = Some (ExternalCopy v)" by (cases c) simp
      show ?thesis
        using assms Throws c
        by (cases v) (simp_all add: RunSync_failure_object RunSync_failure_primitive)
    qed
  qed
  with after show ?thesis by blast
qed

text \<open>
  At a concrete input: the default thread, holding only its own isolate 0, calls into
  isolate 1 and the epilogue of isolate 1 runs.
\<close>

theorem sync_epilogue_iff_success_and_not_reentrant_witness:
  "1 \<noteq> current default_world \<and> default_thread default_world
   \<and> Phase2 task42 = Returns () \<and> \<not> IsLocked 1 default_world
   \<and> Epilogue 1 \<in> set (since default_world
         (snd (RunSync copy_all ''at call'' task42 (Some 1) default_world)))
   \<and> take 3 (since default_world
         (snd (RunSync copy_all ''at call'' task42 (Some 1) default_world))) =
       [Lock 1, CallPhase2, Epilogue 1]
   \<and> IsLocked 1 (ExecutorLock_ctor 1 default_world)"
proof -
  have h: "1 \<noteq> current default_world" "default_thread default_world"
    by (simp_all add: default_world_def)
  have p: "Phase2 task42 = Returns ()"
    by (simp add: task42_def)
  have n: "\<not> IsLocked 1 default_world"
    by (simp add: IsLocked_def default_world_def)
  note run = sync_epilogue_iff_success_and_not_reentrant
    [OF h, where ext = copy_all and here = "''at call''" and self = task42]
  from run p n have "Epilogue 1 \<in> set (since default_world
         (snd (RunSync copy_all ''at call'' task42 (Some 1) default_world)))"
    by blast
  moreover from run p n have "take 3 (since default_world
         (snd (RunSync copy_all ''at call'' task42 (Some 1) default_world))) =
       [Lock 1, CallPhase2, Epilogue 1]"
    by simp
  moreover from run have "IsLocked 1 (ExecutorLock_ctor 1 default_world)"
    by blast
  ultimately show ?thesis
    using h p n by blast
qed

subsection \<open>C9: fire and ignore\<close>

text \<open>
  C9.  \<open>Phase2RunnerIgnored::Run\<close> calls \<open>Phase2\<close> directly; the epilogue of the
  isolate it runs in follows only when \<open>Phase2\<close> returned; and when \<open>Phase2\<close> threw,
  the function still returns normally, having called nothing else: no resolve, no reject,
  no exception thrown on, nothing posted.
\<close>

theorem fire_and_ignore_swallows_failure:
  "Phase2RunnerIgnored_Run self w =
     (Returns (),
      w\<lparr>trace := trace w @ CallPhase2 #
          (case Phase2 self of Returns u \<Rightarrow> [Epilogue (current w)] | Throws e \<Rightarrow> [])\<rparr>)"
proof (cases "Phase2 self")
  case (Returns u)
  then have "call_Phase2 self w = (Returns (), emit CallPhase2 w)"
    by (simp add: call_Phase2_def)
  then show ?thesis
    using Returns by (simp add: Phase2RunnerIgnored_Run_def TaskEpilogue_def emit_def)
next
  case (Throws e)
  then have "call_Phase2 self w = (Throws e, emit CallPhase2 w)"
    by (simp add: call_Phase2_def)
  then show ?thesis
    using Throws by (simp add: Phase2RunnerIgnored_Run_def emit_def)
qed

subsection \<open>C10: failures that are not objects\<close>

text \<open>
  C10.  When the value to deliver is not an object, no stack is attached or chained (the
  trace holds neither \<open>Attach\<close> nor \<open>Chain\<close>) and the failure is delivered all the
  same, with the value as it is: \<open>Phase3Failure::Run\<close> and the error functor of
  \<open>Phase3Success::Run\<close> reject the future with it, \<open>RunSync\<close> throws it.
\<close>

theorem non_object_failure_delivered_unchanged:
  assumes "Phase3 failing3 = Throws (Primitive p)"
    and "t \<noteq> current w" "default_thread w"
    and "Phase2 failing2 = Throws e" "ext e = Some (ExternalCopy (Primitive p))"
  shows "trace (Phase3Failure_Run self info (Some (ExternalCopy (Primitive p))) w) =
           trace w @ [Reject (resolver info) (Primitive p), Microtasks (current w)]
       \<and> trace (Phase3Success_Run failing3 info w) =
           trace w @ [CallPhase3, Reject (resolver info) (Primitive p), Microtasks (current w)]
       \<and> RunSync ext here failing2 (Some t) w =
           (Inl (js_runtime_error (Primitive p)),
            w\<lparr>trace := trace w @ [Lock t, CallPhase2, Unlock t,
               ThrowException (current w) (Primitive p)]\<rparr>)"
  using assms
  by (simp add: Phase3Failure_Run_primitive Phase3Success_Run_primitive
        RunSync_failure_primitive)

text \<open>At a concrete input, the thrown string \<open>oops\<close>.\<close>

theorem non_object_failure_delivered_unchanged_witness:
  "Phase3 task_prim3 = Throws (Primitive ''oops'')
   \<and> 1 \<noteq> current default_world \<and> default_thread default_world
   \<and> Phase2 task_prim2 = Throws (Primitive ''oops'')
   \<and> copy_all (Primitive ''oops'') = Some (ExternalCopy (Primitive ''oops''))
   \<and> trace (Phase3Failure_Run task_prim2 info7 (Some (ExternalCopy (Primitive ''oops'')))
        default_world) = [Reject 7 (Primitive ''oops''), Microtasks 0]
   \<and> trace (Phase3Success_Run task_prim3 info7 default_world) =
        [CallPhase3, Reject 7 (Primitive ''oops''), Microtasks 0]
   \<and> fst (RunSync copy_all ''at call'' task_prim2 (Some 1) default_world) =
        Inl (js_runtime_error (Primitive ''oops''))
   \<and> trace (snd (RunSync copy_all ''at call'' task_prim2 (Some 1) default_world)) =
        [Lock 1, CallPhase2, Unlock 1, ThrowException 0 (Primitive ''oops'')]"
proof -
  have h: "Phase3 task_prim3 = Throws (Primitive ''oops'')"
    "1 \<noteq> current default_world" "default_thread default_world"
    "Phase2 task_prim2 = Throws (Primitive ''oops'')"
    "copy_all (Primitive ''oops'') = Some (ExternalCopy (Primitive ''oops''))"
    by (simp_all add: example_defs)
  show ?thesis
    using h
      non_object_failure_delivered_unchanged
        [where ext = copy_all and e = "Primitive ''oops''", OF h,
         where self = task_prim2 and info = info7 and here = "''at call''"]
    by (simp add: default_world_def info7_def)
qed

end
